theory Spec2Isabelle
  imports Complex_Main "HOL-Library.Sublist" "HOL-Library.Multiset"
begin

section \<open>Monitor Collector API: data model\<close>

text \<open>
  The program is \<^verbatim>\<open>src/main.py\<close>: four request handlers over two PostgreSQL tables.
  The handlers are embedded as functions from the database state to a response and the
  database state after the request.

  What lies outside the file is fixed as follows.
  \<^item> A \<^verbatim>\<open>TIMESTAMP\<close> value is the number of microseconds since the epoch, an \<open>int\<close>. A
    Python \<^verbatim>\<open>datetime\<close> is naive, its fields read as such a number, or aware, with its
    offset from UTC in microseconds besides. The engine's conversion of an aware one to
    \<^verbatim>\<open>TIMESTAMP\<close> is a parameter \<open>timestamptz\<close> of \<open>collect\<close>, with \<open>None\<close> where the engine
    raises.
  \<^item> \<^verbatim>\<open>datetime.fromisoformat\<close> is a parameter \<open>fromisoformat\<close> of \<open>collect\<close>, with
    \<open>None\<close> for a raised exception; the clock (\<^verbatim>\<open>datetime.utcnow()\<close>, SQL \<^verbatim>\<open>NOW()\<close>) is a
    parameter of each request; \<^verbatim>\<open>API_KEY\<close> is a parameter of \<open>set_command\<close>.
  \<^item> A Python \<^verbatim>\<open>float\<close> is the real number it denotes. The columns \<^verbatim>\<open>cpu\<close> and \<^verbatim>\<open>ram\<close> are
    \<^verbatim>\<open>REAL\<close>, single precision: the engine's conversion of a submitted number to \<^verbatim>\<open>REAL\<close>
    is a parameter \<open>float4\<close> of \<open>collect\<close>, giving the rounded number that is stored, or
    \<open>None\<close> where the engine raises because the number is out of range.
  \<^item> A string is the sequence of its UTF-8 bytes.
  \<^item> The database is taken to be reachable; connection failures are not part of the
    model. What the adapter and the engine do with the statements of the file is written
    out: the insert refuses a string holding the character NUL, an aware \<^verbatim>\<open>datetime\<close> the
    engine does not convert, a number outside \<^verbatim>\<open>REAL\<close> and a \<^verbatim>\<open>SERIAL\<close> sequence at its
    maximum 2147483647, and otherwise draws the next value of the sequence; the upsert replaces the row of the same primary key; \<^verbatim>\<open>LIMIT\<close>
    refuses a count that is negative or beyond \<^verbatim>\<open>bigint\<close>. A statement that raises
    leaves the database as it was.
\<close>

type_synonym datetime = int

datatype pydatetime =
  Naive datetime
  | Aware datetime int

text \<open>\<^verbatim>\<open>class Payload(BaseModel)\<close>\<close>

record Payload =
  client_id :: string
  timestamp :: string
  cpu :: real
  ram :: real

text \<open>Table \<^verbatim>\<open>metricas (id SERIAL PRIMARY KEY, client_id, ts, cpu, ram)\<close>, all \<^verbatim>\<open>NOT NULL\<close>.\<close>

record metricas_row =
  m_id :: int
  m_client_id :: string
  m_ts :: datetime
  m_cpu :: real
  m_ram :: real

text \<open>
  Table \<^verbatim>\<open>comandos (client_id TEXT PRIMARY KEY, command TEXT, updated_at TIMESTAMP)\<close>; the
  last two columns admit \<^verbatim>\<open>NULL\<close>.
\<close>

record comandos_row =
  c_client_id :: string
  command :: "string option"
  updated_at :: "datetime option"

text \<open>
  The database: both tables as the lists of their rows in insertion order, and the last
  value drawn from the sequence behind \<^verbatim>\<open>metricas.id\<close>.
\<close>

record db =
  metricas :: "metricas_row list"
  metricas_id_seq :: int
  comandos :: "comandos_row list"

definition empty_db :: db where
  "empty_db = \<lparr>metricas = [], metricas_id_seq = 0, comandos = []\<rparr>"


text \<open>
  The Python values the handlers return: a response is a \<^verbatim>\<open>dict\<close> with string keys, kept
  as an association list in the order of its keys.
\<close>

datatype pyvalue =
  PyNone
  | PyStr string
  | PyInt int
  | PyFloat real
  | PyDatetime datetime

type_synonym pydict = "(string \<times> pyvalue) list"

datatype error =
  HTTPException nat string
  | DatabaseError string
  | TypeError string
  | ValueError string

section \<open>Ingestion: \<^verbatim>\<open>POST /api/collect\<close>\<close>

text \<open>
  \<^verbatim>\<open>cur.execute("INSERT INTO metricas (client_id, ts, cpu, ram) VALUES (%s, %s, %s, %s)",
  ...)\<close> and \<^verbatim>\<open>conn.commit()\<close>. The call is not guarded, and it raises
  \<^item> in the adapter, which refuses to write a string with a NUL character into the
    statement (\<^verbatim>\<open>ValueError\<close>);
  \<^item> in the engine, when the timestamp is an aware \<^verbatim>\<open>datetime\<close> it does not convert;
  \<^item> in the engine, when \<^verbatim>\<open>cpu\<close> or \<^verbatim>\<open>ram\<close> is out of the range of \<^verbatim>\<open>REAL\<close>;
  \<^item> in the engine, when the sequence behind \<^verbatim>\<open>id\<close> has reached 2147483647.

  Otherwise the row is appended with the next value of the sequence and with \<^verbatim>\<open>cpu\<close> and
  \<^verbatim>\<open>ram\<close> rounded to \<^verbatim>\<open>REAL\<close>. A naive \<^verbatim>\<open>datetime\<close> is stored as it reads.
\<close>

fun to_timestamp :: "(datetime \<Rightarrow> int \<Rightarrow> datetime option) \<Rightarrow> pydatetime \<Rightarrow> datetime option" where
  "to_timestamp timestamptz (Naive t) = Some t"
| "to_timestamp timestamptz (Aware t off) = timestamptz t off"

definition insert_metricas ::
  "(real \<Rightarrow> real option) \<Rightarrow> (datetime \<Rightarrow> int \<Rightarrow> datetime option) \<Rightarrow> db \<Rightarrow> string
     \<Rightarrow> pydatetime \<Rightarrow> real \<Rightarrow> real \<Rightarrow> error + db" where
  "insert_metricas float4 timestamptz d cid ts c r =
     (if CHR 0x00 \<in> set cid
      then Inl (ValueError ''A string literal cannot contain NUL (0x00) characters.'')
      else case to_timestamp timestamptz ts of
        None \<Rightarrow> Inl (DatabaseError ''time zone displacement out of range'')
      | Some t \<Rightarrow>
          (case float4 c of
             None \<Rightarrow> Inl (DatabaseError ''value out of range for type real'')
           | Some c4 \<Rightarrow>
               (case float4 r of
                  None \<Rightarrow> Inl (DatabaseError ''value out of range for type real'')
                | Some r4 \<Rightarrow>
                    if 2147483647 \<le> metricas_id_seq d
                    then Inl (DatabaseError ''nextval: reached maximum value of sequence'')
                    else let i = metricas_id_seq d + 1
                         in Inr (d\<lparr>metricas := metricas d @
                                      [\<lparr>m_id = i, m_client_id = cid, m_ts = t,
                                        m_cpu = c4, m_ram = r4\<rparr>],
                                    metricas_id_seq := i\<rparr>))))"

text \<open>
  \<^verbatim>\<open>def collect(payload, authorization)\<close>, in two parts. First the value of \<^verbatim>\<open>ts\<close>: the
  \<^verbatim>\<open>try\<close>/\<^verbatim>\<open>except Exception\<close> around the parse is the case distinction on the parser's
  result, and \<^verbatim>\<open>datetime.utcnow()\<close> is naive.
\<close>

definition collect_ts :: "(string \<Rightarrow> pydatetime option) \<Rightarrow> datetime \<Rightarrow> Payload \<Rightarrow> pydatetime" where
  "collect_ts fromisoformat utcnow payload =
     (case fromisoformat (timestamp payload) of Some t \<Rightarrow> t | None \<Rightarrow> Naive utcnow)"

text \<open>
  Then the handler. An exception of the insert leaves the handler: the request fails and
  the database is as before.
\<close>

definition collect ::
  "(string \<Rightarrow> pydatetime option) \<Rightarrow> (real \<Rightarrow> real option) \<Rightarrow> (datetime \<Rightarrow> int \<Rightarrow> datetime option)
     \<Rightarrow> datetime \<Rightarrow> db \<Rightarrow> Payload \<Rightarrow> string option \<Rightarrow> (error + pydict) \<times> db" where
  "collect fromisoformat float4 timestamptz utcnow d payload authorization =
     (case insert_metricas float4 timestamptz d (client_id payload)
             (collect_ts fromisoformat utcnow payload) (cpu payload) (ram payload) of
        Inl e \<Rightarrow> (Inl e, d)
      | Inr d' \<Rightarrow> (Inr [(''status'', PyStr ''ok'')], d'))"

section \<open>Commands: \<^verbatim>\<open>GET\<close> and \<^verbatim>\<open>POST /api/command/{client_id}\<close>\<close>

text \<open>
  \<^verbatim>\<open>SELECT command, updated_at FROM comandos WHERE client_id = %s\<close> and \<^verbatim>\<open>fetchone()\<close>:
  the first matching row, or \<open>None\<close>.
\<close>

definition select_comando :: "db \<Rightarrow> string \<Rightarrow> comandos_row option" where
  "select_comando d cid = find (\<lambda>r. c_client_id r = cid) (comandos d)"

fun nullable :: "('a \<Rightarrow> pyvalue) \<Rightarrow> 'a option \<Rightarrow> pyvalue" where
  "nullable f None = PyNone"
| "nullable f (Some x) = f x"

text \<open>
  \<^verbatim>\<open>def get_command(client_id)\<close>. A fetched row is a non-empty \<^verbatim>\<open>RealDictRow\<close>, hence true
  in \<^verbatim>\<open>if not row\<close>.
\<close>

definition get_command :: "db \<Rightarrow> string \<Rightarrow> pydict \<times> db" where
  "get_command d cid =
     (case select_comando d cid of
        None \<Rightarrow> ([(''command'', PyStr ''stop'')], d)
      | Some row \<Rightarrow>
          ([(''command'', nullable PyStr (command row)),
            (''updated_at'', nullable PyDatetime (updated_at row))], d))"

text \<open>Python's \<^verbatim>\<open>needle in haystack\<close> on strings: \<open>needle\<close> occurs as a contiguous part.\<close>

fun startswith :: "string \<Rightarrow> string \<Rightarrow> bool" where
  "startswith s [] = True"
| "startswith [] (p # ps) = False"
| "startswith (c # s) (p # ps) = (c = p \<and> startswith s ps)"

fun str_contains :: "string \<Rightarrow> string \<Rightarrow> bool" where
  "str_contains needle [] = (needle = [])"
| "str_contains needle (c # s) = (startswith (c # s) needle \<or> str_contains needle s)"

text \<open>
  \<^verbatim>\<open>not authorization or API_KEY not in authorization\<close>: a missing header and an empty one
  are both false in Python.
\<close>

definition unauthorized :: "string \<Rightarrow> string option \<Rightarrow> bool" where
  "unauthorized API_KEY authorization =
     (case authorization of
        None \<Rightarrow> True
      | Some a \<Rightarrow> a = [] \<or> \<not> str_contains API_KEY a)"

text \<open>
  \<^verbatim>\<open>INSERT INTO comandos ... VALUES (%s, %s, NOW()) ON CONFLICT (client_id) DO UPDATE SET
  command = EXCLUDED.command, updated_at = EXCLUDED.updated_at\<close>: the row with this key is
  updated where it stands; without one, a new row is appended.
\<close>

fun upsert_comandos ::
  "comandos_row list \<Rightarrow> string \<Rightarrow> string \<Rightarrow> datetime \<Rightarrow> comandos_row list" where
  "upsert_comandos [] cid cmd t =
     [\<lparr>c_client_id = cid, command = Some cmd, updated_at = Some t\<rparr>]"
| "upsert_comandos (r # rs) cid cmd t =
     (if c_client_id r = cid
      then r\<lparr>command := Some cmd, updated_at := Some t\<rparr> # rs
      else r # upsert_comandos rs cid cmd t)"

text \<open>\<^verbatim>\<open>def set_command(client_id, command, authorization)\<close>\<close>

definition set_command ::
  "string \<Rightarrow> datetime \<Rightarrow> db \<Rightarrow> string \<Rightarrow> string \<Rightarrow> string option
     \<Rightarrow> (error + pydict) \<times> db" where
  "set_command API_KEY now d cid cmd authorization =
     (if unauthorized API_KEY authorization
      then (Inl (HTTPException 401 ''Unauthorized''), d)
      else if cmd \<noteq> ''start'' \<and> cmd \<noteq> ''stop''
      then (Inl (HTTPException 400 ''Invalid command''), d)
      else (Inr [(''status'', PyStr ''ok''), (''client_id'', PyStr cid),
                 (''command'', PyStr cmd)],
            d\<lparr>comandos := upsert_comandos (comandos d) cid cmd now\<rparr>))"

section \<open>History: \<^verbatim>\<open>GET /api/metrics/{client_id}\<close>\<close>

text \<open>
  \<^verbatim>\<open>ORDER BY ts DESC\<close>. The engine leaves the order of rows with equal \<^verbatim>\<open>ts\<close> open; the
  model puts the row inserted later first.
\<close>

definition order_by_ts_desc :: "metricas_row list \<Rightarrow> metricas_row list" where
  "order_by_ts_desc rows = rev (sort_key m_ts rows)"

text \<open>
  \<^verbatim>\<open>SELECT id, client_id, ts, cpu, ram FROM metricas WHERE client_id = %s ORDER BY ts DESC
  LIMIT %s\<close> and \<^verbatim>\<open>fetchall()\<close>. PostgreSQL takes the count of \<^verbatim>\<open>LIMIT\<close> as a \<^verbatim>\<open>bigint\<close> and
  raises on a negative one.
\<close>

definition select_metricas :: "db \<Rightarrow> string \<Rightarrow> int \<Rightarrow> error + metricas_row list" where
  "select_metricas d cid limit =
     (if limit < 0 then Inl (DatabaseError ''LIMIT must not be negative'')
      else if 9223372036854775807 < limit then Inl (DatabaseError ''bigint out of range'')
      else Inr (take (nat limit)
                  (order_by_ts_desc (filter (\<lambda>r. m_client_id r = cid) (metricas d)))))"

text \<open>A fetched row as the \<^verbatim>\<open>RealDictRow\<close> the cursor builds: \<^verbatim>\<open>ts\<close> is a \<^verbatim>\<open>datetime\<close>.\<close>

definition row_dict :: "metricas_row \<Rightarrow> pydict" where
  "row_dict r =
     [(''id'', PyInt (m_id r)), (''client_id'', PyStr (m_client_id r)),
      (''ts'', PyDatetime (m_ts r)), (''cpu'', PyFloat (m_cpu r)),
      (''ram'', PyFloat (m_ram r))]"

text \<open>
  \<^verbatim>\<open>JSONResponse(content=rows)\<close> renders its content with \<^verbatim>\<open>json.dumps\<close> when it is
  constructed, with no encoder for other types: a \<^verbatim>\<open>datetime\<close> anywhere in the content
  raises \<^verbatim>\<open>TypeError\<close>. (A value a handler returns directly, as \<open>get_command\<close> does,
  goes through the framework's encoder instead, which accepts a \<^verbatim>\<open>datetime\<close>.)
\<close>

fun json_dumps_ok :: "pyvalue \<Rightarrow> bool" where
  "json_dumps_ok (PyDatetime t) = False"
| "json_dumps_ok v = True"

definition JSONResponse :: "pydict list \<Rightarrow> error + pydict list" where
  "JSONResponse content =
     (if list_all (\<lambda>row. list_all (\<lambda>kv. json_dumps_ok (snd kv)) row) content
      then Inr content
      else Inl (TypeError ''Object of type datetime is not JSON serializable''))"

text \<open>
  \<^verbatim>\<open>def metrics(client_id, limit = 500)\<close>, in two parts. First the value of \<^verbatim>\<open>rows\<close> after
  \<^verbatim>\<open>rows.reverse()\<close>: the fetched rows, oldest first.
\<close>

definition metrics_rows :: "db \<Rightarrow> string \<Rightarrow> int \<Rightarrow> error + metricas_row list" where
  "metrics_rows d cid limit =
     (case select_metricas d cid limit of
        Inl e \<Rightarrow> Inl e
      | Inr rows \<Rightarrow> Inr (rev rows))"

text \<open>
  Then the handler itself, which returns \<^verbatim>\<open>JSONResponse(content=rows)\<close>; \<open>None\<close> is the
  request without \<^verbatim>\<open>limit\<close>.
\<close>

definition metrics :: "db \<Rightarrow> string \<Rightarrow> int option \<Rightarrow> (error + pydict list) \<times> db" where
  "metrics d cid limit_param =
     (let limit = (case limit_param of None \<Rightarrow> 500 | Some n \<Rightarrow> n)
      in case metrics_rows d cid limit of
           Inl e \<Rightarrow> (Inl e, d)
         | Inr rows \<Rightarrow> (JSONResponse (map row_dict rows), d))"

section \<open>Sequences of requests\<close>




text \<open>
  The values of \<^verbatim>\<open>datetime.fromisoformat\<close> on the timestamps used in the examples below:
  three naive ones a second apart from 2024-01-01T00:00:01, and one aware, 23 hours east
  of UTC; every other string of the examples (\<^verbatim>\<open>not-a-date\<close>) is one it rejects.
\<close>

definition fromisoformat_sample :: "string \<Rightarrow> pydatetime option" where
  "fromisoformat_sample s =
     (if s = ''2024-01-01T00:00:01'' then Some (Naive 1704067201000000)
      else if s = ''2024-01-01T00:00:02'' then Some (Naive 1704067202000000)
      else if s = ''2024-01-01T00:00:03'' then Some (Naive 1704067203000000)
      else if s = ''2024-01-01T00:00:01+23:00''
        then Some (Aware 1704067201000000 82800000000)
      else None)"

text \<open>
  The conversion to \<^verbatim>\<open>REAL\<close> on the numbers used in the examples below: the small whole
  numbers are stored as they are, 16777217 (\<open>2^24 + 1\<close>, which single precision does not
  have) is stored as 16777216, and \<open>10^39\<close>, beyond the largest \<^verbatim>\<open>REAL\<close> (about
  \<open>3.4 * 10^38\<close>), is refused. No other number occurs in the examples.
\<close>

definition float4_sample :: "real \<Rightarrow> real option" where
  "float4_sample x =
     (if x = 10 \<or> x = 11 \<or> x = 12 \<or> x = 20 \<or> x = 21 \<or> x = 22 then Some x
      else if x = 16777217 then Some 16777216
      else None)"

text \<open>
  The conversion of an aware \<^verbatim>\<open>datetime\<close> in a session whose time zone is UTC: the engine
  takes an offset of less than 16 hours either way and stores the time in UTC.
\<close>

definition timestamptz_utc :: "datetime \<Rightarrow> int \<Rightarrow> datetime option" where
  "timestamptz_utc t off =
     (if - 57600000000 < off \<and> off < 57600000000 then Some (t - off) else None)"


section \<open>Facts about the store operations\<close>

subsection \<open>Substring test\<close>

text \<open>The two string functions are the library's \<open>prefix\<close> and \<open>sublist\<close>.\<close>

lemma startswith_prefix: "startswith s p = prefix p s"
  by (induction s p rule: startswith.induct) auto

lemma str_contains_sublist: "str_contains needle s = sublist needle s"
  by (induction s) (simp_all add: startswith_prefix sublist_Cons_right)

subsection \<open>The upsert on \<^verbatim>\<open>comandos\<close>\<close>

text \<open>After an upsert the key is found, with the command and the time just written.\<close>

lemma find_upsert_comandos:
  "find (\<lambda>r. c_client_id r = cid) (upsert_comandos rs cid cmd t) =
     Some \<lparr>c_client_id = cid, command = Some cmd, updated_at = Some t\<rparr>"
  by (induction rs) auto








subsection \<open>The history query\<close>





subsection \<open>The response of \<open>metrics\<close>\<close>

text \<open>
  Every row dictionary holds a \<^verbatim>\<open>datetime\<close> under \<^verbatim>\<open>ts\<close>, so \<open>JSONResponse\<close> renders the
  empty list only: with one row or more, constructing the response raises \<^verbatim>\<open>TypeError\<close>
  and the request fails.
\<close>

lemma JSONResponse_row_dict:
  "JSONResponse (map row_dict rows) =
     (if rows = [] then Inr []
      else Inl (TypeError ''Object of type datetime is not JSON serializable''))"
  by (cases rows) (simp_all add: JSONResponse_def row_dict_def)

lemma metrics_response:
  "metrics_rows d cid limit = Inr rows \<Longrightarrow>
   metrics d cid (Some limit) =
     (if rows = [] then Inr []
      else Inl (TypeError ''Object of type datetime is not JSON serializable''), d)"
  by (simp add: metrics_def JSONResponse_row_dict)

text \<open>
  Three samples of \<^verbatim>\<open>pc-1\<close>, one second apart, and \<^verbatim>\<open>limit=2\<close>: the rows handed to the
  response are the second and the third, and the response is the \<^verbatim>\<open>TypeError\<close>.
\<close>

lemma metrics_of_three_samples:
  "metrics_rows
     (snd (collect fromisoformat_sample float4_sample timestamptz_utc 1704067213000000
       (snd (collect fromisoformat_sample float4_sample timestamptz_utc 1704067212000000
         (snd (collect fromisoformat_sample float4_sample timestamptz_utc 1704067211000000 empty_db
           \<lparr>client_id = ''pc-1'', timestamp = ''2024-01-01T00:00:01'', cpu = 10, ram = 20\<rparr> None))
         \<lparr>client_id = ''pc-1'', timestamp = ''2024-01-01T00:00:02'', cpu = 11, ram = 21\<rparr> None))
       \<lparr>client_id = ''pc-1'', timestamp = ''2024-01-01T00:00:03'', cpu = 12, ram = 22\<rparr> None))
     ''pc-1'' 2 =
   Inr [\<lparr>m_id = 2, m_client_id = ''pc-1'', m_ts = 1704067202000000, m_cpu = 11, m_ram = 21\<rparr>,
        \<lparr>m_id = 3, m_client_id = ''pc-1'', m_ts = 1704067203000000, m_cpu = 12, m_ram = 22\<rparr>] \<and>
   fst (metrics
     (snd (collect fromisoformat_sample float4_sample timestamptz_utc 1704067213000000
       (snd (collect fromisoformat_sample float4_sample timestamptz_utc 1704067212000000
         (snd (collect fromisoformat_sample float4_sample timestamptz_utc 1704067211000000 empty_db
           \<lparr>client_id = ''pc-1'', timestamp = ''2024-01-01T00:00:01'', cpu = 10, ram = 20\<rparr> None))
         \<lparr>client_id = ''pc-1'', timestamp = ''2024-01-01T00:00:02'', cpu = 11, ram = 21\<rparr> None))
       \<lparr>client_id = ''pc-1'', timestamp = ''2024-01-01T00:00:03'', cpu = 12, ram = 22\<rparr> None))
     ''pc-1'' (Some 2)) =
   Inl (TypeError ''Object of type datetime is not JSON serializable'')"
  by (simp add: metrics_def metrics_rows_def select_metricas_def order_by_ts_desc_def
      JSONResponse_def row_dict_def collect_def collect_ts_def insert_metricas_def empty_db_def
      fromisoformat_sample_def float4_sample_def)

subsection \<open>What the insert refuses and what it rounds\<close>

text \<open>
  A \<open>client_id\<close> with a NUL character, a timestamp that parses to an offset the engine
  does not take, and a full sequence each fail the request and store nothing; a number
  single precision does not have is stored rounded.
\<close>

lemma collect_nul_client_id:
  "collect fromisoformat_sample float4_sample timestamptz_utc 1704067299000000 empty_db
     \<lparr>client_id = [CHR ''p'', CHR ''c'', CHR 0x00], timestamp = ''2024-01-01T00:00:01'',
      cpu = 10, ram = 20\<rparr> None =
   (Inl (ValueError ''A string literal cannot contain NUL (0x00) characters.''), empty_db)"
  by (simp add: collect_def collect_ts_def insert_metricas_def)

lemma collect_offset_out_of_range:
  "collect fromisoformat_sample float4_sample timestamptz_utc 1704067299000000 empty_db
     \<lparr>client_id = ''pc-1'', timestamp = ''2024-01-01T00:00:01+23:00'', cpu = 10, ram = 20\<rparr>
     None =
   (Inl (DatabaseError ''time zone displacement out of range''), empty_db)"
  by (simp add: collect_def collect_ts_def insert_metricas_def fromisoformat_sample_def timestamptz_utc_def)

lemma collect_sequence_exhausted:
  "metricas_id_seq d = 2147483647 \<Longrightarrow>
   CHR 0x00 \<notin> set (client_id payload) \<Longrightarrow>
   to_timestamp timestamptz (collect_ts fromisoformat utcnow payload) = Some t \<Longrightarrow>
   float4 (cpu payload) = Some c \<Longrightarrow> float4 (ram payload) = Some r \<Longrightarrow>
   collect fromisoformat float4 timestamptz utcnow d payload authorization =
     (Inl (DatabaseError ''nextval: reached maximum value of sequence''), d)"
  by (simp add: collect_def insert_metricas_def Let_def)

lemma collect_rounds_to_real:
  "metricas (snd (collect fromisoformat_sample float4_sample timestamptz_utc 1704067299000000 empty_db
     \<lparr>client_id = ''pc-1'', timestamp = ''2024-01-01T00:00:01'', cpu = 16777217, ram = 20\<rparr>
     None)) =
   [\<lparr>m_id = 1, m_client_id = ''pc-1'', m_ts = 1704067201000000, m_cpu = 16777216, m_ram = 20\<rparr>]"
  by (simp add: collect_def collect_ts_def insert_metricas_def empty_db_def fromisoformat_sample_def float4_sample_def)

text \<open>
  The insert succeeds exactly when none of its refusals applies, and then the handler
  answers \<^verbatim>\<open>status = ok\<close>.
\<close>

lemma collect_ok_iff:
  "(\<exists>resp. fst (collect fromisoformat float4 timestamptz utcnow d payload authorization) = Inr resp) \<longleftrightarrow>
   CHR 0x00 \<notin> set (client_id payload) \<and>
   to_timestamp timestamptz (collect_ts fromisoformat utcnow payload) \<noteq> None \<and>
   float4 (cpu payload) \<noteq> None \<and> float4 (ram payload) \<noteq> None \<and>
   metricas_id_seq d < 2147483647"
  by (auto simp: collect_def insert_metricas_def Let_def split: option.splits)

section \<open>The claims\<close>

subsection \<open>C1: the window of the metrics query\<close>




subsection \<open>C2: a read after a write\<close>

text \<open>
  C2. For every \<open>client_id\<close>, when a command write of \<^verbatim>\<open>start\<close> succeeds, a command read for
  the same \<open>client_id\<close> on the resulting database returns \<^verbatim>\<open>command = start\<close> (with the
  time of the write as \<^verbatim>\<open>updated_at\<close>).
\<close>

theorem set_command_start_then_get_command:
  assumes "fst (set_command API_KEY now d cid ''start'' authorization) = Inr resp"
  shows "fst (get_command (snd (set_command API_KEY now d cid ''start'' authorization)) cid) =
           [(''command'', PyStr ''start''), (''updated_at'', PyDatetime now)] \<and>
         map_of (fst (get_command (snd (set_command API_KEY now d cid ''start'' authorization)) cid))
           ''command'' = Some (PyStr ''start'')"
  using assms
  by (simp add: set_command_def get_command_def select_comando_def find_upsert_comandos
      split: if_splits)

theorem set_command_start_then_get_command_witness:
  "fst (set_command ''minha-chave-teste'' 1704067201000000 empty_db ''pc-1'' ''start''
          (Some ''Bearer minha-chave-teste'')) =
     Inr [(''status'', PyStr ''ok''), (''client_id'', PyStr ''pc-1''), (''command'', PyStr ''start'')] \<and>
   fst (get_command (snd (set_command ''minha-chave-teste'' 1704067201000000 empty_db ''pc-1''
          ''start'' (Some ''Bearer minha-chave-teste''))) ''pc-1'') =
     [(''command'', PyStr ''start''), (''updated_at'', PyDatetime 1704067201000000)]"
proof -
  have ok: "fst (set_command ''minha-chave-teste'' 1704067201000000 empty_db ''pc-1'' ''start''
          (Some ''Bearer minha-chave-teste'')) =
     Inr [(''status'', PyStr ''ok''), (''client_id'', PyStr ''pc-1''), (''command'', PyStr ''start'')]"
    by (simp add: set_command_def unauthorized_def)
  from ok set_command_start_then_get_command [OF ok] show ?thesis by simp
qed

subsection \<open>C3: an unauthorized write\<close>

text \<open>
  C3. For every command write whose \<^verbatim>\<open>Authorization\<close> header is absent, or present without
  the configured key as a substring, the handler fails with \<^verbatim>\<open>HTTPException(401)\<close> and the
  database after the request is the database before it.
\<close>

theorem set_command_unauthorized:
  assumes "authorization = None \<or> (\<exists>a. authorization = Some a \<and> \<not> str_contains API_KEY a)"
  shows "set_command API_KEY now d cid cmd authorization =
           (Inl (HTTPException 401 ''Unauthorized''), d)"
  using assms by (auto simp: set_command_def unauthorized_def)

theorem set_command_unauthorized_witness:
  "\<not> str_contains ''minha-chave-teste'' ''Bearer outra-chave'' \<and>
   set_command ''minha-chave-teste'' 1704067201000000
     \<lparr>metricas = [], metricas_id_seq = 0,
      comandos = [\<lparr>c_client_id = ''pc-1'', command = Some ''stop'', updated_at = Some 1704067200000000\<rparr>]\<rparr>
     ''pc-1'' ''start'' (Some ''Bearer outra-chave'') =
     (Inl (HTTPException 401 ''Unauthorized''),
      \<lparr>metricas = [], metricas_id_seq = 0,
       comandos = [\<lparr>c_client_id = ''pc-1'', command = Some ''stop'', updated_at = Some 1704067200000000\<rparr>]\<rparr>)"
proof -
  have no: "\<not> str_contains ''minha-chave-teste'' ''Bearer outra-chave''"
    by simp
  then have "Some ''Bearer outra-chave'' = None \<or>
      (\<exists>a. Some ''Bearer outra-chave'' = Some a \<and> \<not> str_contains ''minha-chave-teste'' a)"
    by simp
  from no set_command_unauthorized [OF this] show ?thesis by simp
qed

subsection \<open>C4: an invalid command\<close>

text \<open>
  C4. For every command write that passes the authorization check and whose command is
  neither \<^verbatim>\<open>start\<close> nor \<^verbatim>\<open>stop\<close>, the handler fails with \<^verbatim>\<open>HTTPException(400)\<close> and the
  database after the request is the database before it.
\<close>

theorem set_command_invalid_command:
  assumes "\<not> unauthorized API_KEY authorization"
    and "cmd \<noteq> ''start''" and "cmd \<noteq> ''stop''"
  shows "set_command API_KEY now d cid cmd authorization =
           (Inl (HTTPException 400 ''Invalid command''), d)"
  using assms by (simp add: set_command_def)

theorem set_command_invalid_command_witness:
  "\<not> unauthorized ''minha-chave-teste'' (Some ''Bearer minha-chave-teste'') \<and>
   set_command ''minha-chave-teste'' 1704067201000000
     \<lparr>metricas = [], metricas_id_seq = 0,
      comandos = [\<lparr>c_client_id = ''pc-1'', command = Some ''stop'', updated_at = Some 1704067200000000\<rparr>]\<rparr>
     ''pc-1'' ''restart'' (Some ''Bearer minha-chave-teste'') =
     (Inl (HTTPException 400 ''Invalid command''),
      \<lparr>metricas = [], metricas_id_seq = 0,
       comandos = [\<lparr>c_client_id = ''pc-1'', command = Some ''stop'', updated_at = Some 1704067200000000\<rparr>]\<rparr>)"
proof -
  have au: "\<not> unauthorized ''minha-chave-teste'' (Some ''Bearer minha-chave-teste'')"
    by (simp add: unauthorized_def)
  have "''restart'' \<noteq> ''start''" and "''restart'' \<noteq> ''stop''" by simp_all
  from au set_command_invalid_command [OF au this] show ?thesis by simp
qed

subsection \<open>C5: the default command\<close>



subsection \<open>C6: a timestamp that does not parse\<close>

text \<open>
  C6. For every payload whose timestamp the parser rejects and whose other fields the
  store takes (a \<open>client_id\<close> without a NUL character, \<open>cpu\<close> and \<open>ram\<close> within \<^verbatim>\<open>REAL\<close>, the
  \<open>id\<close> sequence below its maximum), the ingestion handler does not fail: it appends one
  row carrying the server's current time as its timestamp and returns \<^verbatim>\<open>status = ok\<close>. A
  request with such a timestamp fails only when one of those other conditions does, never
  for the timestamp.
\<close>

theorem collect_unparseable_timestamp:
  assumes "fromisoformat (timestamp payload) = None"
  shows "(CHR 0x00 \<notin> set (client_id payload) \<and> float4 (cpu payload) = Some c \<and>
          float4 (ram payload) = Some r \<and> metricas_id_seq d < 2147483647 \<longrightarrow>
            collect fromisoformat float4 timestamptz utcnow d payload authorization =
              (Inr [(''status'', PyStr ''ok'')],
               d\<lparr>metricas := metricas d @
                    [\<lparr>m_id = metricas_id_seq d + 1, m_client_id = client_id payload,
                      m_ts = utcnow, m_cpu = c, m_ram = r\<rparr>],
                 metricas_id_seq := metricas_id_seq d + 1\<rparr>)) \<and>
         (fst (collect fromisoformat float4 timestamptz utcnow d payload authorization) = Inl e \<longrightarrow>
            CHR 0x00 \<in> set (client_id payload) \<or> float4 (cpu payload) = None \<or>
            float4 (ram payload) = None \<or> 2147483647 \<le> metricas_id_seq d)"
proof -
  have stored: "collect fromisoformat float4 timestamptz utcnow d payload authorization =
      (Inr [(''status'', PyStr ''ok'')],
       d\<lparr>metricas := metricas d @
            [\<lparr>m_id = metricas_id_seq d + 1, m_client_id = client_id payload,
              m_ts = utcnow, m_cpu = c, m_ram = r\<rparr>],
         metricas_id_seq := metricas_id_seq d + 1\<rparr>)"
    if "CHR 0x00 \<notin> set (client_id payload)" and "float4 (cpu payload) = Some c"
      and "float4 (ram payload) = Some r" and "metricas_id_seq d < 2147483647"
    using that assms by (simp add: collect_def collect_ts_def insert_metricas_def Let_def)
  have cause: "CHR 0x00 \<in> set (client_id payload) \<or> float4 (cpu payload) = None \<or>
      float4 (ram payload) = None \<or> 2147483647 \<le> metricas_id_seq d"
    if "fst (collect fromisoformat float4 timestamptz utcnow d payload authorization) = Inl e"
    using that assms
    by (auto simp: collect_def collect_ts_def insert_metricas_def Let_def split: option.splits if_splits)
  from stored cause show ?thesis by blast
qed

theorem collect_unparseable_timestamp_witness:
  "fromisoformat_sample
     (timestamp \<lparr>client_id = ''pc-1'', timestamp = ''not-a-date'', cpu = 10, ram = 20\<rparr>) = None \<and>
   CHR 0x00 \<notin> set (client_id
     \<lparr>client_id = ''pc-1'', timestamp = ''not-a-date'', cpu = 10, ram = 20\<rparr>) \<and>
   float4_sample 10 = Some 10 \<and> float4_sample 20 = Some 20 \<and>
   metricas_id_seq empty_db < 2147483647 \<and>
   collect fromisoformat_sample float4_sample timestamptz_utc 1704067299000000 empty_db
     \<lparr>client_id = ''pc-1'', timestamp = ''not-a-date'', cpu = 10, ram = 20\<rparr> None =
   (Inr [(''status'', PyStr ''ok'')],
    \<lparr>metricas = [\<lparr>m_id = 1, m_client_id = ''pc-1'', m_ts = 1704067299000000, m_cpu = 10, m_ram = 20\<rparr>],
     metricas_id_seq = 1, comandos = []\<rparr>)"
proof -
  have bad: "fromisoformat_sample
      (timestamp \<lparr>client_id = ''pc-1'', timestamp = ''not-a-date'', cpu = 10, ram = 20\<rparr>) = None"
    by (simp add: fromisoformat_sample_def)
  from bad collect_unparseable_timestamp
    [where fromisoformat = fromisoformat_sample and ?float4.0 = float4_sample
       and timestamptz = timestamptz_utc
       and payload = "\<lparr>client_id = ''pc-1'', timestamp = ''not-a-date'', cpu = 10, ram = 20\<rparr>"
       and utcnow = 1704067299000000 and d = empty_db and authorization = None
       and c = 10 and r = 20]
  show ?thesis
    by (simp add: empty_db_def float4_sample_def)
qed

text \<open>
  As stated for every payload with a rejected timestamp, C6 fails: with \<open>cpu = 10^39\<close> the
  insert raises, nothing is stored and the request fails.
\<close>

theorem collect_unparseable_timestamp_counterexample:
  "collect fromisoformat_sample float4_sample timestamptz_utc 1704067299000000 empty_db
     \<lparr>client_id = ''pc-1'', timestamp = ''not-a-date'',
      cpu = 1000000000000000000000000000000000000000, ram = 20\<rparr> None =
   (Inl (DatabaseError ''value out of range for type real''), empty_db)"
  by (simp add: collect_def collect_ts_def insert_metricas_def empty_db_def fromisoformat_sample_def float4_sample_def)

subsection \<open>C7: ingestion appends\<close>

text \<open>
  C7. For every payload the ingestion handler accepts, the number of \<^verbatim>\<open>metricas\<close> rows of
  the payload's \<open>client_id\<close> is one more than before and the table has exactly one row more;
  when the same payload is submitted a second time and accepted again, there are two rows
  more than at the start. For every payload, accepted or refused, the rows stored before
  are still there, unchanged and in their places, and a refused payload leaves the
  database as it was. A payload is accepted when its \<open>client_id\<close> has no NUL character, its
  timestamp is rejected by the parser or parses to a \<^verbatim>\<open>datetime\<close> the store converts, its
  \<open>cpu\<close> and \<open>ram\<close> are within \<^verbatim>\<open>REAL\<close>, and the \<open>id\<close> sequence is below its maximum.
\<close>

theorem collect_appends_one_row:
  "(fst (collect fromisoformat float4 timestamptz utcnow d payload authorization) = Inr resp \<longrightarrow>
      length (filter (\<lambda>r. m_client_id r = client_id payload)
        (metricas (snd (collect fromisoformat float4 timestamptz utcnow d payload authorization)))) =
        Suc (length (filter (\<lambda>r. m_client_id r = client_id payload) (metricas d))) \<and>
      length (metricas (snd (collect fromisoformat float4 timestamptz utcnow d payload authorization))) =
        Suc (length (metricas d)) \<and>
      (fst (collect fromisoformat float4 timestamptz utcnow'
              (snd (collect fromisoformat float4 timestamptz utcnow d payload authorization))
              payload authorization) = Inr resp' \<longrightarrow>
         length (filter (\<lambda>r. m_client_id r = client_id payload)
           (metricas (snd (collect fromisoformat float4 timestamptz utcnow'
              (snd (collect fromisoformat float4 timestamptz utcnow d payload authorization))
              payload authorization)))) =
           Suc (Suc (length (filter (\<lambda>r. m_client_id r = client_id payload) (metricas d)))))) \<and>
   take (length (metricas d))
     (metricas (snd (collect fromisoformat float4 timestamptz utcnow d payload authorization))) =
     metricas d \<and>
   (fst (collect fromisoformat float4 timestamptz utcnow d payload authorization) = Inl e \<longrightarrow>
      snd (collect fromisoformat float4 timestamptz utcnow d payload authorization) = d) \<and>
   (CHR 0x00 \<notin> set (client_id payload) \<and>
    to_timestamp timestamptz (collect_ts fromisoformat utcnow payload) = Some t \<and>
    float4 (cpu payload) = Some c \<and> float4 (ram payload) = Some r \<and>
    metricas_id_seq d < 2147483647 \<longrightarrow>
      fst (collect fromisoformat float4 timestamptz utcnow d payload authorization) =
        Inr [(''status'', PyStr ''ok'')])"
proof -
  have once: "length (filter (\<lambda>r. m_client_id r = client_id payload)
        (metricas (snd (collect fromisoformat float4 timestamptz u d' payload authorization)))) =
        Suc (length (filter (\<lambda>r. m_client_id r = client_id payload) (metricas d'))) \<and>
      length (metricas (snd (collect fromisoformat float4 timestamptz u d' payload authorization))) =
        Suc (length (metricas d'))"
    if "fst (collect fromisoformat float4 timestamptz u d' payload authorization) = Inr x"
    for u d' x
    using that
    by (auto simp: collect_def insert_metricas_def Let_def split: option.splits if_splits)
  have twice: "length (filter (\<lambda>r. m_client_id r = client_id payload)
           (metricas (snd (collect fromisoformat float4 timestamptz utcnow'
              (snd (collect fromisoformat float4 timestamptz utcnow d payload authorization))
              payload authorization)))) =
           Suc (Suc (length (filter (\<lambda>r. m_client_id r = client_id payload) (metricas d))))"
    if first: "fst (collect fromisoformat float4 timestamptz utcnow d payload authorization) = Inr resp"
      and second: "fst (collect fromisoformat float4 timestamptz utcnow'
              (snd (collect fromisoformat float4 timestamptz utcnow d payload authorization))
              payload authorization) = Inr resp'"
    using once [OF first] once [OF second] by simp
  have kept: "take (length (metricas d))
     (metricas (snd (collect fromisoformat float4 timestamptz utcnow d payload authorization))) =
     metricas d"
    by (simp add: collect_def insert_metricas_def Let_def split: option.split)
  have refused: "snd (collect fromisoformat float4 timestamptz utcnow d payload authorization) = d"
    if "fst (collect fromisoformat float4 timestamptz utcnow d payload authorization) = Inl e"
    using that
    by (auto simp: collect_def insert_metricas_def Let_def split: option.splits if_splits)
  have accepted: "fst (collect fromisoformat float4 timestamptz utcnow d payload authorization) =
        Inr [(''status'', PyStr ''ok'')]"
    if "CHR 0x00 \<notin> set (client_id payload)"
      and "to_timestamp timestamptz (collect_ts fromisoformat utcnow payload) = Some t"
      and "float4 (cpu payload) = Some c" and "float4 (ram payload) = Some r"
      and "metricas_id_seq d < 2147483647"
    using that by (simp add: collect_def insert_metricas_def Let_def)
  from once [of utcnow d resp] twice kept refused accepted show ?thesis by blast
qed

theorem collect_appends_one_row_witness:
  "CHR 0x00 \<notin> set (client_id
     \<lparr>client_id = ''pc-1'', timestamp = ''2024-01-01T00:00:02'', cpu = 11, ram = 21\<rparr>) \<and>
   to_timestamp timestamptz_utc (collect_ts fromisoformat_sample 1704067211000000
     \<lparr>client_id = ''pc-1'', timestamp = ''2024-01-01T00:00:02'', cpu = 11, ram = 21\<rparr>) =
     Some 1704067202000000 \<and>
   float4_sample 11 = Some 11 \<and> float4_sample 21 = Some 21 \<and>
   metricas_id_seq empty_db < 2147483647 \<and>
   fst (collect fromisoformat_sample float4_sample timestamptz_utc 1704067211000000 empty_db
        \<lparr>client_id = ''pc-1'', timestamp = ''2024-01-01T00:00:02'', cpu = 11, ram = 21\<rparr> None) =
     Inr [(''status'', PyStr ''ok'')] \<and>
   fst (collect fromisoformat_sample float4_sample timestamptz_utc 1704067212000000
     (snd (collect fromisoformat_sample float4_sample timestamptz_utc 1704067211000000 empty_db
        \<lparr>client_id = ''pc-1'', timestamp = ''2024-01-01T00:00:02'', cpu = 11, ram = 21\<rparr> None))
     \<lparr>client_id = ''pc-1'', timestamp = ''2024-01-01T00:00:02'', cpu = 11, ram = 21\<rparr> None) =
     Inr [(''status'', PyStr ''ok'')] \<and>
   metricas (snd (collect fromisoformat_sample float4_sample timestamptz_utc 1704067212000000
     (snd (collect fromisoformat_sample float4_sample timestamptz_utc 1704067211000000 empty_db
        \<lparr>client_id = ''pc-1'', timestamp = ''2024-01-01T00:00:02'', cpu = 11, ram = 21\<rparr> None))
     \<lparr>client_id = ''pc-1'', timestamp = ''2024-01-01T00:00:02'', cpu = 11, ram = 21\<rparr> None)) =
   [\<lparr>m_id = 1, m_client_id = ''pc-1'', m_ts = 1704067202000000, m_cpu = 11, m_ram = 21\<rparr>,
    \<lparr>m_id = 2, m_client_id = ''pc-1'', m_ts = 1704067202000000, m_cpu = 11, m_ram = 21\<rparr>]"
  using collect_appends_one_row
    [where fromisoformat = fromisoformat_sample and ?float4.0 = float4_sample
       and timestamptz = timestamptz_utc
       and payload = "\<lparr>client_id = ''pc-1'', timestamp = ''2024-01-01T00:00:02'', cpu = 11, ram = 21\<rparr>"
       and utcnow = 1704067211000000 and utcnow' = 1704067212000000 and d = empty_db
       and authorization = None and c = 11 and r = 21 and t = 1704067202000000
       and resp = "[(''status'', PyStr ''ok'')]" and resp' = "[(''status'', PyStr ''ok'')]"]
  by (simp add: collect_def collect_ts_def insert_metricas_def empty_db_def fromisoformat_sample_def float4_sample_def)

text \<open>
  As stated for every well-formed payload, C7 fails: with \<open>ram = 10^39\<close> the insert raises
  and the number of rows of the client stays what it was.
\<close>

theorem collect_appends_one_row_counterexample:
  "collect fromisoformat_sample float4_sample timestamptz_utc 1704067211000000 empty_db
     \<lparr>client_id = ''pc-1'', timestamp = ''2024-01-01T00:00:01'', cpu = 10,
      ram = 1000000000000000000000000000000000000000\<rparr> None =
   (Inl (DatabaseError ''value out of range for type real''), empty_db)"
  by (simp add: collect_def collect_ts_def insert_metricas_def empty_db_def fromisoformat_sample_def float4_sample_def)

subsection \<open>C8: one command row per client\<close>



subsection \<open>C9: the stored \<open>client_id\<close>\<close>

text \<open>
  C9. The ingestion handler does not require a non-empty \<open>client_id\<close>. For every accepted
  ingestion request a row has been stored and its \<open>client_id\<close> is the \<open>client_id\<close> of the
  payload; and a payload with the empty \<open>client_id\<close> is accepted like any other, whenever the
  store takes its timestamp and its numbers and the \<open>id\<close> sequence is below its maximum,
  so the stored \<open>client_id\<close> may be empty.
\<close>

theorem collect_stores_client_id:
  "(fst (collect fromisoformat float4 timestamptz utcnow d payload authorization) = Inr resp \<longrightarrow>
      metricas (snd (collect fromisoformat float4 timestamptz utcnow d payload authorization)) \<noteq> [] \<and>
      m_client_id (last (metricas
        (snd (collect fromisoformat float4 timestamptz utcnow d payload authorization)))) =
        client_id payload) \<and>
   (client_id payload = [] \<and>
    to_timestamp timestamptz (collect_ts fromisoformat utcnow payload) = Some t \<and>
    float4 (cpu payload) = Some c \<and>
    float4 (ram payload) = Some r \<and> metricas_id_seq d < 2147483647 \<longrightarrow>
      fst (collect fromisoformat float4 timestamptz utcnow d payload authorization) =
        Inr [(''status'', PyStr ''ok'')])"
proof -
  have stored: "metricas (snd (collect fromisoformat float4 timestamptz utcnow d payload authorization)) \<noteq> [] \<and>
      m_client_id (last (metricas
        (snd (collect fromisoformat float4 timestamptz utcnow d payload authorization)))) =
        client_id payload"
    if "fst (collect fromisoformat float4 timestamptz utcnow d payload authorization) = Inr resp"
    using that
    by (auto simp: collect_def insert_metricas_def Let_def split: option.splits if_splits)
  have empty: "fst (collect fromisoformat float4 timestamptz utcnow d payload authorization) =
        Inr [(''status'', PyStr ''ok'')]"
    if "client_id payload = []"
      and "to_timestamp timestamptz (collect_ts fromisoformat utcnow payload) = Some t"
      and "float4 (cpu payload) = Some c"
      and "float4 (ram payload) = Some r" and "metricas_id_seq d < 2147483647"
    using that by (simp add: collect_def insert_metricas_def Let_def)
  from stored empty show ?thesis by blast
qed

theorem collect_stores_client_id_witness:
  "client_id \<lparr>client_id = [], timestamp = ''not-a-date'', cpu = 12, ram = 22\<rparr> = [] \<and>
   to_timestamp timestamptz_utc (collect_ts fromisoformat_sample 1704067299000000
     \<lparr>client_id = [], timestamp = ''not-a-date'', cpu = 12, ram = 22\<rparr>) =
     Some 1704067299000000 \<and>
   float4_sample 12 = Some 12 \<and> float4_sample 22 = Some 22 \<and>
   metricas_id_seq
     \<lparr>metricas = [\<lparr>m_id = 1, m_client_id = ''pc-1'', m_ts = 1704067201000000, m_cpu = 10, m_ram = 20\<rparr>],
      metricas_id_seq = 1, comandos = []\<rparr> < 2147483647 \<and>
   fst (collect fromisoformat_sample float4_sample timestamptz_utc 1704067299000000
     \<lparr>metricas = [\<lparr>m_id = 1, m_client_id = ''pc-1'', m_ts = 1704067201000000, m_cpu = 10, m_ram = 20\<rparr>],
      metricas_id_seq = 1, comandos = []\<rparr>
     \<lparr>client_id = [], timestamp = ''not-a-date'', cpu = 12, ram = 22\<rparr> None) =
     Inr [(''status'', PyStr ''ok'')] \<and>
   m_client_id (last (metricas (snd (collect fromisoformat_sample float4_sample timestamptz_utc 1704067299000000
     \<lparr>metricas = [\<lparr>m_id = 1, m_client_id = ''pc-1'', m_ts = 1704067201000000, m_cpu = 10, m_ram = 20\<rparr>],
      metricas_id_seq = 1, comandos = []\<rparr>
     \<lparr>client_id = [], timestamp = ''not-a-date'', cpu = 12, ram = 22\<rparr> None)))) = []"
  using collect_stores_client_id
    [where fromisoformat = fromisoformat_sample and ?float4.0 = float4_sample
       and timestamptz = timestamptz_utc
       and payload = "\<lparr>client_id = [], timestamp = ''not-a-date'', cpu = 12, ram = 22\<rparr>"
       and utcnow = 1704067299000000
       and d = "\<lparr>metricas = [\<lparr>m_id = 1, m_client_id = ''pc-1'', m_ts = 1704067201000000, m_cpu = 10, m_ram = 20\<rparr>],
      metricas_id_seq = 1, comandos = []\<rparr>"
       and authorization = None and c = 12 and r = 22 and t = 1704067299000000
       and resp = "[(''status'', PyStr ''ok'')]"]
  by (simp add: collect_def collect_ts_def insert_metricas_def fromisoformat_sample_def float4_sample_def)

text \<open>
  As stated, with a non-empty \<open>client_id\<close> required, C9 fails: a payload with the empty
  \<open>client_id\<close> is accepted and stored.
\<close>

theorem collect_empty_client_id_counterexample:
  "collect fromisoformat_sample float4_sample timestamptz_utc 1704067299000000 empty_db
     \<lparr>client_id = [], timestamp = ''2024-01-01T00:00:01'', cpu = 10, ram = 20\<rparr> None =
   (Inr [(''status'', PyStr ''ok'')],
    \<lparr>metricas = [\<lparr>m_id = 1, m_client_id = [], m_ts = 1704067201000000, m_cpu = 10, m_ram = 20\<rparr>],
     metricas_id_seq = 1, comandos = []\<rparr>)"
  by (simp add: collect_def collect_ts_def insert_metricas_def empty_db_def fromisoformat_sample_def float4_sample_def)

subsection \<open>C10: ingestion and the \<^verbatim>\<open>Authorization\<close> header\<close>

text \<open>
  C10. For every payload, database and clock reading, and any two values of the
  \<^verbatim>\<open>Authorization\<close> header, absence included, the ingestion handler gives the same response
  and the same database.
\<close>

theorem collect_ignores_authorization:
  "collect fromisoformat float4 timestamptz utcnow d payload authorization1 =
   collect fromisoformat float4 timestamptz utcnow d payload authorization2"
  by (simp add: collect_def)

end
